theory Spec2Isabelle
  imports Main "HOL-Library.Word"
begin

unbundle bit_operations_syntax

section \<open>check-windows-eventlog: data model\<close>

text \<open>
  A shallow embedding of \<^verbatim>\<open>check-windows-eventlog.go\<close>. Go strings are byte strings
  (\<^typ>\<open>string\<close>, one \<^typ>\<open>char\<close> per byte); \<^verbatim>\<open>uint32\<close>, \<^verbatim>\<open>uint16\<close> and
  \<^verbatim>\<open>int64\<close> are machine words, so that every addition wraps as in the program.
  A Go \<^verbatim>\<open>error\<close> value is a value of the datatype \<open>error\<close>; a pair
  \<^verbatim>\<open>(x, err)\<close> returned by a Go function is a pair whose second component is an
  \<open>error option\<close> (\<open>None\<close> is \<^verbatim>\<open>nil\<close>), or a sum where the value is never read
  beside a non-nil error.
\<close>

type_synonym uint32 = "32 word"
type_synonym uint16 = "16 word"
type_synonym int64 = "64 word"
type_synonym byte = "8 word"

datatype error =
    Errno nat
  | ErrNotExist
  | ErrFs string
  | ErrSyntax
  | ErrRange
  | InvalidIdList
  | InvalidIdListWith error
  | ErrRegexp string
  | ErrFlags string

text \<open>\<^verbatim>\<open>const errorInvalidParameter = syscall.Errno(87)\<close>;
  \<^verbatim>\<open>syscall.ERROR_INSUFFICIENT_BUFFER\<close> is \<^verbatim>\<open>Errno(122)\<close>.\<close>

definition errorInvalidParameter :: error where
  "errorInvalidParameter = Errno 87"

definition ERROR_INSUFFICIENT_BUFFER :: error where
  "ERROR_INSUFFICIENT_BUFFER = Errno 122"

text \<open>\<^verbatim>\<open>os.IsNotExist\<close>: the file-system model below produces \<open>ErrNotExist\<close>
  exactly where the file is absent.\<close>

fun IsNotExist :: "error \<Rightarrow> bool" where
  "IsNotExist ErrNotExist = True"
| "IsNotExist _ = False"

record idRange =
  hi :: uint32
  lo :: uint32
  bang :: bool

section \<open>Strings and numbers of the Go library\<close>

text \<open>\<^verbatim>\<open>strings.Split(s, ",")\<close>: the pieces between commas; the empty string gives one
  empty piece.\<close>

fun Split_comma :: "string \<Rightarrow> string list" where
  "Split_comma [] = [[]]"
| "Split_comma (c # cs) =
     (if c = CHR '','' then [] # Split_comma cs
      else (case Split_comma cs of
              [] \<Rightarrow> [[c]]
            | t # ts \<Rightarrow> (c # t) # ts))"

text \<open>
  \<^verbatim>\<open>strings.TrimSpace\<close> removes leading and trailing white space as
  \<^verbatim>\<open>unicode.IsSpace\<close> defines it. On a byte string that is: the ASCII characters
  tab, line feed, vertical tab, form feed, carriage return and space, and the UTF-8
  encodings of U+0085, U+00A0, U+1680, U+2000 to U+200A, U+2028, U+2029, U+202F, U+205F
  and U+3000. A rune is decoded at the front (at the back) of the string exactly when
  its encoding is a prefix (a suffix) of it.
\<close>

definition space_encodings :: "string list" where
  "space_encodings =
     [[CHR 0x09], [CHR 0x0A], [CHR 0x0B], [CHR 0x0C], [CHR 0x0D], [CHR 0x20],
      [CHR 0xC2, CHR 0x85], [CHR 0xC2, CHR 0xA0],
      [CHR 0xE1, CHR 0x9A, CHR 0x80],
      [CHR 0xE2, CHR 0x80, CHR 0x80], [CHR 0xE2, CHR 0x80, CHR 0x81],
      [CHR 0xE2, CHR 0x80, CHR 0x82], [CHR 0xE2, CHR 0x80, CHR 0x83],
      [CHR 0xE2, CHR 0x80, CHR 0x84], [CHR 0xE2, CHR 0x80, CHR 0x85],
      [CHR 0xE2, CHR 0x80, CHR 0x86], [CHR 0xE2, CHR 0x80, CHR 0x87],
      [CHR 0xE2, CHR 0x80, CHR 0x88], [CHR 0xE2, CHR 0x80, CHR 0x89],
      [CHR 0xE2, CHR 0x80, CHR 0x8A],
      [CHR 0xE2, CHR 0x80, CHR 0xA8], [CHR 0xE2, CHR 0x80, CHR 0xA9],
      [CHR 0xE2, CHR 0x80, CHR 0xAF],
      [CHR 0xE2, CHR 0x81, CHR 0x9F],
      [CHR 0xE3, CHR 0x80, CHR 0x80]]"

definition starts_with :: "string \<Rightarrow> string \<Rightarrow> bool" where
  "starts_with s p = (take (length p) s = p)"

function trim_front :: "string list \<Rightarrow> string \<Rightarrow> string" where
  "trim_front encs s =
     (case find (\<lambda>e. e \<noteq> [] \<and> starts_with s e) encs of
        None \<Rightarrow> s
      | Some e \<Rightarrow> trim_front encs (drop (length e) s))"
  by pat_completeness auto
termination
proof (relation "measure (\<lambda>(encs, s). length s)")
  show "wf (measure (\<lambda>(encs, s). length s))" by simp
next
  fix encs :: "string list" and s e :: string
  assume "find (\<lambda>e. e \<noteq> [] \<and> starts_with s e) encs = Some e"
  then have "e \<noteq> []" and "take (length e) s = e"
    by (auto simp: find_Some_iff starts_with_def)
  then have "s \<noteq> []" by auto
  with \<open>e \<noteq> []\<close> show "((encs, drop (length e) s), (encs, s)) \<in> measure (\<lambda>(encs, s). length s)"
    by simp
qed

definition TrimSpace :: "string \<Rightarrow> string" where
  "TrimSpace s = rev (trim_front (map rev space_encodings) (rev (trim_front space_encodings s)))"

text \<open>\<^verbatim>\<open>strings.Trim(s, " \r\n")\<close>, the cutset fixed as in \<^verbatim>\<open>getLastOffset\<close>.\<close>

definition in_cutset :: "char \<Rightarrow> bool" where
  "in_cutset c = (c = CHR 0x20 \<or> c = CHR 0x0D \<or> c = CHR 0x0A)"

definition Trim_cutset :: "string \<Rightarrow> string" where
  "Trim_cutset s = rev (dropWhile in_cutset (rev (dropWhile in_cutset s)))"

definition is_digit :: "char \<Rightarrow> bool" where
  "is_digit c = (48 \<le> (of_char c :: nat) \<and> (of_char c :: nat) \<le> 57)"

definition digit_val :: "char \<Rightarrow> nat" where
  "digit_val c = of_char c - 48"

text \<open>
  The digit loop of \<^verbatim>\<open>strconv.ParseUint(s, 10, bitSize)\<close>, left to right: a byte that
  is not a decimal digit is a syntax error, a value above \<open>maxVal\<close> a range error,
  whichever comes first.
\<close>

fun parse_digits :: "nat \<Rightarrow> nat \<Rightarrow> string \<Rightarrow> error + nat" where
  "parse_digits maxVal n [] = Inr n"
| "parse_digits maxVal n (c # cs) =
     (if \<not> is_digit c then Inl ErrSyntax
      else if n * 10 + digit_val c > maxVal then Inl ErrRange
      else parse_digits maxVal (n * 10 + digit_val c) cs)"

definition ParseUint :: "string \<Rightarrow> nat \<Rightarrow> error + nat" where
  "ParseUint s bitSize =
     (if s = [] then Inl ErrSyntax else parse_digits (2 ^ bitSize - 1) 0 s)"

text \<open>\<^verbatim>\<open>strconv.ParseInt(s, 10, 64)\<close>: an optional sign, then \<^verbatim>\<open>ParseUint\<close>; the
  magnitude must fit the sign.\<close>

definition ParseInt64 :: "string \<Rightarrow> error + int64" where
  "ParseInt64 s =
     (if s = [] then Inl ErrSyntax
      else
        let neg = (hd s = CHR ''-'');
            s' = (if hd s = CHR ''+'' \<or> hd s = CHR ''-'' then tl s else s)
        in case ParseUint s' 64 of
             Inl e \<Rightarrow> Inl e
           | Inr un \<Rightarrow>
               if \<not> neg \<and> un \<ge> 2 ^ 63 then Inl ErrRange
               else if neg \<and> un > 2 ^ 63 then Inl ErrRange
               else Inr (if neg then - (of_nat un) else of_nat un))"

text \<open>\<^verbatim>\<open>fmt.Sprintf("%d", n)\<close> for a non-negative and for a signed 64-bit value.\<close>

fun dec_nat :: "nat \<Rightarrow> string" where
  "dec_nat n =
     (if n < 10 then [char_of (48 + n)]
      else dec_nat (n div 10) @ [char_of (48 + n mod 10)])"

declare dec_nat.simps [simp del]

definition Sprintf_d :: "int64 \<Rightarrow> string" where
  "Sprintf_d n =
     (if sint n < 0 then CHR ''-'' # dec_nat (nat (- sint n)) else dec_nat (nat (sint n)))"

section \<open>The ID-range parser\<close>

text \<open>
  The two patterns \<^verbatim>\<open>rid1 = ^([0-9]+)$\<close> and \<^verbatim>\<open>rid2 = ^([0-9]+)-([0-9]+)$\<close>.
  \<open>rid1\<close> and \<open>rid2\<close> return the submatches of the first match
  (\<^verbatim>\<open>m[0][1]\<close>, \<^verbatim>\<open>m[0][2]\<close>), \<open>None\<close> when \<^verbatim>\<open>FindAllStringSubmatch\<close> finds nothing.
\<close>

definition rid1 :: "string \<Rightarrow> string option" where
  "rid1 t = (if t \<noteq> [] \<and> list_all is_digit t then Some t else None)"

definition rid2 :: "string \<Rightarrow> (string \<times> string) option" where
  "rid2 t =
     (let a = takeWhile is_digit t; r = dropWhile is_digit t
      in if a \<noteq> [] \<and> r \<noteq> [] \<and> hd r = CHR ''-'' \<and> tl r \<noteq> [] \<and> list_all is_digit (tl r)
         then Some (a, tl r) else None)"

text \<open>One token of the list: the body of the \<^verbatim>\<open>for\<close> loop of \<^verbatim>\<open>idRangeList\<close>.\<close>

definition idRange_token :: "string \<Rightarrow> error + idRange" where
  "idRange_token t0 =
     (let t1 = TrimSpace t0;
          b = starts_with t1 ''!'';
          t = (if b then drop 1 t1 else t1)
      in case rid1 t of
           Some m1 \<Rightarrow>
             (case ParseUint m1 32 of
                Inl e \<Rightarrow> Inl (InvalidIdListWith e)
              | Inr id1 \<Rightarrow> Inr \<lparr>hi = of_nat id1, lo = of_nat id1, bang = b\<rparr>)
         | None \<Rightarrow>
             (case rid2 t of
                Some (m1, m2) \<Rightarrow>
                  (case ParseUint m1 32 of
                     Inl e \<Rightarrow> Inl (InvalidIdListWith e)
                   | Inr id1 \<Rightarrow>
                       (case ParseUint m2 32 of
                          Inl e \<Rightarrow> Inl (InvalidIdListWith e)
                        | Inr id2 \<Rightarrow>
                            if id1 > id2
                            then Inr \<lparr>hi = of_nat id1, lo = of_nat id2, bang = b\<rparr>
                            else Inr \<lparr>hi = of_nat id2, lo = of_nat id1, bang = b\<rparr>))
              | None \<Rightarrow> Inl InvalidIdList))"

fun idRangeList_loop :: "string list \<Rightarrow> idRange list \<Rightarrow> error + idRange list" where
  "idRangeList_loop [] idrl = Inr idrl"
| "idRangeList_loop (t # ts) idrl =
     (case idRange_token t of
        Inl e \<Rightarrow> Inl e
      | Inr r \<Rightarrow> idRangeList_loop ts (idrl @ [r]))"

definition idRangeList :: "string \<Rightarrow> error + idRange list" where
  "idRangeList s = idRangeList_loop (Split_comma s) []"

text \<open>
  The shape of a token as the specification words it: a decimal number, two decimal
  numbers joined by a dash, or one of these after an exclamation mark. A token is a
  comma-separated piece of the input without its surrounding white space.
\<close>

definition is_decimal :: "string \<Rightarrow> bool" where
  "is_decimal t = (t \<noteq> [] \<and> list_all is_digit t)"

definition is_decimal_pair :: "string \<Rightarrow> bool" where
  "is_decimal_pair t =
     list_ex (\<lambda>k. t ! k = CHR ''-'' \<and> is_decimal (take k t) \<and> is_decimal (drop (Suc k) t))
       [0..<length t]"

definition wellformed_token :: "string \<Rightarrow> bool" where
  "wellformed_token t =
     (is_decimal t \<or> is_decimal_pair t \<or>
      (case t of [] \<Rightarrow> False
       | c # u \<Rightarrow> c = CHR ''!'' \<and> (is_decimal u \<or> is_decimal_pair u)))"

definition tokens :: "string \<Rightarrow> string list" where
  "tokens s = map TrimSpace (Split_comma s)"

section \<open>The event-ID filter\<close>

text \<open>
  The inner loop of \<^verbatim>\<open>searchLog\<close> over \<^verbatim>\<open>opts.idRangeList\<close>; the state is the pair
  of the variables \<^verbatim>\<open>found\<close> and \<^verbatim>\<open>exact\<close>.
\<close>

fun id_loop :: "idRange list \<Rightarrow> uint32 \<Rightarrow> bool \<times> bool \<Rightarrow> bool \<times> bool" where
  "id_loop [] eventID (found, exact) = (found, exact)"
| "id_loop (idr # rest) eventID (found, exact) =
     (if \<not> bang idr then
        id_loop rest eventID
          (if lo idr \<le> eventID \<and> eventID \<le> hi idr then True else found, True)
      else
        id_loop rest eventID
          (if lo idr \<le> eventID \<and> eventID \<le> hi idr then False
           else if \<not> exact then True else found, exact))"

text \<open>The whole ID stage for a record with event ID \<open>eid\<close>: \<open>True\<close> when the record
  goes on to the next stage, \<open>False\<close> when the loop over the records continues.\<close>

definition id_filter :: "idRange list option \<Rightarrow> uint32 \<Rightarrow> bool" where
  "id_filter idrl eid =
     (case idrl of
        None \<Rightarrow> True
      | Some l \<Rightarrow> fst (id_loop l (eid AND 0x0000FFFF) (False, False)))"

text \<open>
  The evaluation as the specification words it: a step function on
  (found, sawPositiveRange), folded over the list from (false, false).
\<close>

definition spec_id_step :: "uint32 \<Rightarrow> idRange \<Rightarrow> bool \<times> bool \<Rightarrow> bool \<times> bool" where
  "spec_id_step e r st =
     (let found = fst st; sawPositiveRange = snd st; inside = (lo r \<le> e \<and> e \<le> hi r)
      in if bang r
         then (if inside then False else if sawPositiveRange then found else True,
               sawPositiveRange)
         else (if inside then True else found, True))"

definition spec_id_found :: "idRange list \<Rightarrow> uint32 \<Rightarrow> bool" where
  "spec_id_found l e = fst (foldl (\<lambda>st r. spec_id_step e r st) (False, False) l)"

section \<open>State files\<close>

text \<open>
  The file system as \<^verbatim>\<open>getLastOffset\<close> and \<^verbatim>\<open>writeLastOffset\<close> see it. A path is
  \<open>Missing\<close> (\<^verbatim>\<open>os.Stat\<close> fails with an error for which \<^verbatim>\<open>os.IsNotExist\<close> holds),
  has \<open>Content\<close>, or is \<open>Faulty\<close> (\<^verbatim>\<open>os.Stat\<close> or \<^verbatim>\<open>ioutil.ReadFile\<close> fails in
  another way, the text being the error's). \<open>write_fault f\<close> is the error with which
  \<^verbatim>\<open>os.MkdirAll\<close> or \<^verbatim>\<open>ioutil.WriteFile\<close> fails for the path \<open>f\<close>, if one of them
  does; the model leaves the file as it was in that case.
\<close>

datatype file_state = Missing | Content string | Faulty string

record filesys =
  files :: "string \<Rightarrow> file_state"
  write_fault :: "string \<Rightarrow> error option"

definition getLastOffset :: "filesys \<Rightarrow> string \<Rightarrow> int64 \<times> error option" where
  "getLastOffset fsys f =
     (case files fsys f of
        Missing \<Rightarrow> (0, Some ErrNotExist)
      | Faulty m \<Rightarrow> (0, Some (ErrFs m))
      | Content b \<Rightarrow>
          (case ParseInt64 (Trim_cutset b) of
             Inl e \<Rightarrow> (0, Some e)
           | Inr i \<Rightarrow> (i, None)))"

definition writeLastOffset :: "filesys \<Rightarrow> string \<Rightarrow> int64 \<Rightarrow> filesys \<times> error option" where
  "writeLastOffset fsys f num =
     (case write_fault fsys f of
        Some e \<Rightarrow> (fsys, Some e)
      | None \<Rightarrow> (fsys\<lparr>files := (files fsys)(f := Content (Sprintf_d num))\<rparr>, None))"

section \<open>Options\<close>

text \<open>
  The struct \<^verbatim>\<open>logOpts\<close>. The flag \<^verbatim>\<open>EventID\<close> and the field \<^verbatim>\<open>idRangeList\<close> carry
  the prefix \<open>opt\<close> here, since the record header has an \<^verbatim>\<open>EventID\<close> as well and
  \<^verbatim>\<open>idRangeList\<close> is also the parser. A compiled \<^verbatim>\<open>*regexp.Regexp\<close> is its
  \<^verbatim>\<open>MatchString\<close> function, \<open>None\<close> the \<^verbatim>\<open>nil\<close> pointer; \<open>opt_idRangeList\<close> is
  \<open>None\<close> for the \<^verbatim>\<open>nil\<close> slice.
\<close>

record logOpts =
  Log :: string
  Type :: string
  SourcePattern :: string
  SourceExclude :: string
  MessagePattern :: string
  MessageExclude :: string
  opt_EventID :: string
  WarnOver :: int64
  CritOver :: int64
  ReturnContent :: bool
  StateDir :: string
  NoState :: bool
  FailFirst :: bool
  Verbose :: bool
  logList :: "string list"
  typeList :: "string list"
  opt_idRangeList :: "idRange list option"
  sourcePattern :: "(string \<Rightarrow> bool) option"
  sourceExclude :: "(string \<Rightarrow> bool) option"
  messagePattern :: "(string \<Rightarrow> bool) option"
  messageExclude :: "(string \<Rightarrow> bool) option"
  origArgs :: "string list"

definition stringList :: "string \<Rightarrow> string list" where
  "stringList s =
     (let l = Split_comma s
      in if length l = 0 \<or> hd l = [] then [] else l)"

section \<open>The operating system\<close>

text \<open>
  The package \<^verbatim>\<open>internal/eventlog\<close>, the registry, the flag parser, the regular
  expression compiler and MD5 are not part of the source file. They are parameters of
  the model, collected in the record \<open>env\<close>: each system call is a function of an
  operating-system state of an arbitrary type \<open>'s\<close>, returning its result and the next
  state, so that nothing is assumed about what the system answers.

  \<^item> \<open>ReadEventLog\<close> gets the handle, the read mode, the record number and the buffer
    size; it answers \<open>ReadOk bs\<close> (\<^verbatim>\<open>nil\<close>; \<open>bs\<close> are the bytes written to the front of
    the buffer) or \<open>ReadErr e n\<close> (the error \<open>e\<close>, and \<open>n\<close> the value of \<^verbatim>\<open>nextSize\<close>
    after the call).
  \<^item> \<open>GetNumberOfEventLogRecords\<close> and \<open>GetOldestEventLogRecord\<close> answer the value
    their out-parameter holds after the call; the error they return is dropped by the
    program (it tests the stale \<^verbatim>\<open>err\<close> of \<^verbatim>\<open>OpenEventLog\<close>).
  \<^item> \<open>cast_EVENTLOGRECORD\<close> is the reinterpretation of the front of the buffer as the
    struct \<^verbatim>\<open>EVENTLOGRECORD\<close>, \<open>sizeof_EVENTLOGRECORD\<close> its size, \<open>EventType_String\<close>
    the method \<^verbatim>\<open>eventlog.EventType.String\<close>, \<open>utf16_string\<close> the conversion
    \<^verbatim>\<open>string(utf16.Decode(s))\<close>.
  \<^item> \<open>FormatMessage\<close> gets the module handle, the event ID, and the argument pointers as
    the record buffer with the offsets of the arguments in it; it answers the number
    of characters and the bytes written to the message buffer.

  Releasing handles (\<^verbatim>\<open>CloseEventLog\<close>, \<^verbatim>\<open>key.Close\<close>, \<^verbatim>\<open>CloseHandle\<close>) and the
  diagnostic output under \<^verbatim>\<open>opts.Verbose\<close> return nothing the program reads and are
  left out.
\<close>

datatype read_flags = FORWARDS_SEEK | FORWARDS_SEQUENTIAL

datatype read_result = ReadOk "byte list" | ReadErr error uint32

record EVENTLOGRECORD =
  RecordNumber :: uint32
  TimeGenerated :: uint32
  TimeWritten :: uint32
  EventID :: uint32
  EventType :: uint16
  NumStrings :: uint16
  StringOffset :: uint32

record 's env =
  flags_ParseArgs :: "string list \<Rightarrow> logOpts \<times> error option"
  Getenv_WORKDIR :: string
  TempDir :: string
  filepath_Join :: "string \<Rightarrow> string \<Rightarrow> string"
  md5_hex :: "string \<Rightarrow> string"
  regexp_Compile :: "string \<Rightarrow> error + (string \<Rightarrow> bool)"
  Error_text :: "error \<Rightarrow> string"
  OpenEventLog :: "'s \<Rightarrow> string \<Rightarrow> (error + nat) \<times> 's"
  GetNumberOfEventLogRecords :: "'s \<Rightarrow> nat \<Rightarrow> uint32 \<times> 's"
  GetOldestEventLogRecord :: "'s \<Rightarrow> nat \<Rightarrow> uint32 \<times> 's"
  ReadEventLog :: "'s \<Rightarrow> nat \<Rightarrow> read_flags \<Rightarrow> uint32 \<Rightarrow> uint32 \<Rightarrow> read_result \<times> 's"
  sizeof_EVENTLOGRECORD :: nat
  cast_EVENTLOGRECORD :: "byte list \<Rightarrow> EVENTLOGRECORD"
  EventType_String :: "uint16 \<Rightarrow> string"
  utf16_string :: "uint16 list \<Rightarrow> string"
  registry_OpenKey :: "'s \<Rightarrow> string \<Rightarrow> (error + nat) \<times> 's"
  GetStringValue :: "'s \<Rightarrow> nat \<Rightarrow> string \<Rightarrow> (error + string) \<times> 's"
  ExpandString :: "'s \<Rightarrow> string \<Rightarrow> (error + string) \<times> 's"
  LoadLibraryEx :: "'s \<Rightarrow> string \<Rightarrow> (error + nat) \<times> 's"
  FormatMessage ::
    "'s \<Rightarrow> nat \<Rightarrow> uint32 \<Rightarrow> byte list \<Rightarrow> uint32 list \<Rightarrow> (error + uint32 \<times> byte list) \<times> 's"

text \<open>What the program leaves behind besides the state files: the record numbers the
  loop visits, the calls of \<^verbatim>\<open>ReadEventLog\<close> (mode, record number, buffer size), and
  the lines it logs.\<close>

datatype event =
    Visit uint32
  | ReadCall read_flags uint32 uint32
  | LogReadEventLog error
  | LogWriteLastOffsetFailed error
  | LogFatal error

record 's world =
  os :: 's
  fs :: filesys
  trace :: "event list"

section \<open>Decoding a record\<close>

text \<open>\<^verbatim>\<open>bytesToString\<close>: 16-bit units, low byte first, up to the first zero unit; the
  second result is twice the index at which the loop stopped.\<close>

fun units16 :: "byte list \<Rightarrow> uint16 list" where
  "units16 (a # b # rest) = (ucast a + push_bit 8 (ucast b)) # units16 rest"
| "units16 _ = []"

definition bytesToString :: "(uint16 list \<Rightarrow> string) \<Rightarrow> byte list \<Rightarrow> string \<times> uint32" where
  "bytesToString dec b =
     (let s = units16 b;
          pre = takeWhile (\<lambda>u. u \<noteq> 0) s;
          i = (if length pre < length s then length pre else length s - 1)
      in (dec pre, of_nat (i * 2)))"

text \<open>The loop that collects the argument pointers. \<open>None\<close> is the run-time panic of
  \<^verbatim>\<open>&buf[r.StringOffset+off]\<close> beyond the buffer.\<close>

fun args_loop ::
  "(uint16 list \<Rightarrow> string) \<Rightarrow> byte list \<Rightarrow> uint32 \<Rightarrow> nat \<Rightarrow> uint32 \<Rightarrow> uint32 list
     \<Rightarrow> uint32 list option" where
  "args_loop dec b so 0 off args = Some args"
| "args_loop dec b so (Suc n) off args =
     (if unat (so + off) \<ge> length b then None
      else args_loop dec b so n
             (off + snd (bytesToString dec (drop (unat (so + off)) b)) + 2)
             (args @ [so + off]))"

definition TrimSuffix_nl :: "string \<Rightarrow> string" where
  "TrimSuffix_nl m = (if m \<noteq> [] \<and> last m = CHR 0x0A then butlast m else m)"

definition regkey_of :: "string \<Rightarrow> string \<Rightarrow> string" where
  "regkey_of providerName sourceName =
     ''SYSTEM'' @ [CHR 0x5C] @ ''CurrentControlSet'' @ [CHR 0x5C] @ ''Services'' @ [CHR 0x5C]
       @ ''EventLog'' @ [CHR 0x5C] @ providerName @ [CHR 0x5C] @ sourceName"

text \<open>\<^verbatim>\<open>getResourceMessage\<close>. The first component of the result is \<open>None\<close> for a
  run-time panic (\<^verbatim>\<open>StringToUTF16Ptr\<close> on a string with a zero byte, or the slice
  \<^verbatim>\<open>msgbuf[:numChars*2]\<close> beyond the 65536 bytes of the buffer).\<close>

definition getResourceMessage ::
  "'s env \<Rightarrow> 's \<Rightarrow> string \<Rightarrow> string \<Rightarrow> uint32 \<Rightarrow> byte list \<Rightarrow> uint32 list
     \<Rightarrow> (string \<times> error option) option \<times> 's" where
  "getResourceMessage env s providerName sourceName eventID b args =
     (case registry_OpenKey env s (regkey_of providerName sourceName) of
        (Inl e, s1) \<Rightarrow> (Some ('''', Some e), s1)
      | (Inr key, s1) \<Rightarrow>
     (case GetStringValue env s1 key ''EventMessageFile'' of
        (Inl e, s2) \<Rightarrow> (Some ('''', Some e), s2)
      | (Inr val, s2) \<Rightarrow>
     (case ExpandString env s2 val of
        (Inl e, s3) \<Rightarrow> (Some ('''', Some e), s3)
      | (Inr val', s3) \<Rightarrow>
     if CHR 0x00 \<in> set val' then (None, s3) else
     (case LoadLibraryEx env s3 val' of
        (Inl e, s4) \<Rightarrow> (Some ('''', Some e), s4)
      | (Inr handle, s4) \<Rightarrow>
     (case FormatMessage env s4 handle eventID b args of
        (Inl e, s5) \<Rightarrow> (Some ('''', Some e), s5)
      | (Inr (numChars, written), s5) \<Rightarrow>
     if unat (numChars * 2) > 65536 then (None, s5) else
       (let msgbuf = take 65536 (written @ replicate 65536 0);
            message = fst (bytesToString (utf16_string env) (take (unat (numChars * 2)) msgbuf))
        in (Some (TrimSuffix_nl (filter (\<lambda>c. c \<noteq> CHR 0x0D) message), None), s5)))))))"

section \<open>Scanning one log\<close>

text \<open>
  The variables of \<^verbatim>\<open>searchLog\<close> that live across the iterations of the loop
  \<^verbatim>\<open>loop_events\<close>, with the state of the operating system and the trace. (\<open>bsize\<close> is
  the variable \<^verbatim>\<open>size\<close>.) One iteration ends in \<^verbatim>\<open>continue\<close> or at the end of the
  body (\<open>Continue\<close>), in \<^verbatim>\<open>break\<close> (\<open>Break\<close>), in \<^verbatim>\<open>return 0, 0, "", err\<close>
  (\<open>Abort\<close>), or in a run-time panic (\<open>Panicked\<close>).
\<close>

record 's lstate =
  l_os :: 's
  l_trace :: "event list"
  buf :: "byte list"
  bsize :: uint32
  lastNumber :: uint32
  warnNum :: int64
  critNum :: int64
  errLines :: string

datatype 'a ctl = Continue 'a | Break 'a | Abort error 'a | Panicked 'a

definition no_resource_text :: string where
  "no_resource_text =
     ''[mackerel-agent] No message resource found. Please make sure the event log occured on the server.''"

definition type_filter :: "string list \<Rightarrow> string \<Rightarrow> bool" where
  "type_filter types tn = (if length types > 0 then list_ex (\<lambda>typ. typ = tn) types else True)"

definition source_filter :: "logOpts \<Rightarrow> string \<Rightarrow> bool" where
  "source_filter opts sourceName =
     ((case sourcePattern opts of None \<Rightarrow> True | Some p \<Rightarrow> p sourceName) \<and>
      (case sourceExclude opts of None \<Rightarrow> True | Some p \<Rightarrow> \<not> p sourceName))"

definition message_filter :: "logOpts \<Rightarrow> string \<Rightarrow> bool" where
  "message_filter opts message =
     ((case messagePattern opts of None \<Rightarrow> True | Some p \<Rightarrow> p message) \<and>
      (case messageExclude opts of None \<Rightarrow> True | Some p \<Rightarrow> \<not> p message))"

definition add_content :: "logOpts \<Rightarrow> string \<Rightarrow> string \<Rightarrow> 's lstate \<Rightarrow> 's lstate" where
  "add_content opts sourceName message st =
     (if ReturnContent opts
      then st\<lparr>errLines := errLines st @ sourceName @ '':'' @
                filter (\<lambda>c. c \<noteq> CHR 0x0A) (if message = [] then no_resource_text else message) @
                [CHR 0x0A]\<rparr>
      else st)"

definition tally :: "string \<Rightarrow> 's lstate \<Rightarrow> 's lstate" where
  "tally tn st =
     (if tn = ''Error'' then st\<lparr>critNum := critNum st + 1\<rparr>
      else if tn = ''Audit Failure'' then st\<lparr>critNum := critNum st + 1\<rparr>
      else if tn = ''Warning'' then st\<lparr>warnNum := warnNum st + 1\<rparr>
      else st)"

text \<open>The part of the loop body after a successful read: decode, filter, resolve the
  message, filter, collect the content, count.\<close>

definition handle_record :: "'s env \<Rightarrow> logOpts \<Rightarrow> string \<Rightarrow> 's lstate \<Rightarrow> 's lstate ctl" where
  "handle_record env opts logName st0 =
     (let r = cast_EVENTLOGRECORD env (buf st0);
          st = st0\<lparr>lastNumber := RecordNumber r\<rparr>;
          hdr = sizeof_EVENTLOGRECORD env
      in if \<not> id_filter (opt_idRangeList opts) (EventID r) then Continue st
         else let tn = EventType_String env (EventType r)
         in if \<not> type_filter (typeList opts) tn then Continue st
         else if hdr > length (buf st) then Panicked st
         else let sn = bytesToString (utf16_string env) (drop hdr (buf st));
                  sourceName = fst sn;
                  sourceNameOff = snd sn
         in if hdr + unat (sourceNameOff + 2) > length (buf st) then Panicked st
         else if \<not> source_filter opts sourceName then Continue st
         else (case args_loop (utf16_string env) (buf st) (StringOffset r)
                      (unat (NumStrings r)) 0 [] of
                 None \<Rightarrow> Panicked st
               | Some args \<Rightarrow>
                   (case getResourceMessage env (l_os st) logName sourceName (EventID r)
                           (buf st) args of
                      (None, s') \<Rightarrow> Panicked (st\<lparr>l_os := s'\<rparr>)
                    | (Some (message, err), s') \<Rightarrow>
                        if \<not> message_filter opts message then Continue (st\<lparr>l_os := s'\<rparr>)
                        else Continue
                               (tally tn (add_content opts sourceName message (st\<lparr>l_os := s'\<rparr>))))))"

text \<open>Writing the bytes of a successful read to the front of the buffer.\<close>

definition store :: "byte list \<Rightarrow> byte list \<Rightarrow> byte list" where
  "store bs b = take (length b) (bs @ drop (length bs) b)"

text \<open>The body of the loop for the record number \<open>i\<close>: the read, its one retry, and
  the rest of the body.\<close>

definition read_record ::
  "'s env \<Rightarrow> logOpts \<Rightarrow> string \<Rightarrow> nat \<Rightarrow> uint32 \<Rightarrow> 's lstate \<Rightarrow> 's lstate ctl" where
  "read_record env opts logName h i st =
     (let flags = (if i = 0 then FORWARDS_SEQUENTIAL else FORWARDS_SEEK);
          st1 = st\<lparr>l_trace := l_trace st @ [Visit i, ReadCall flags i (bsize st)]\<rparr>
      in case ReadEventLog env (l_os st) h flags i (bsize st) of
           (ReadOk bs, s1) \<Rightarrow>
             handle_record env opts logName (st1\<lparr>l_os := s1, buf := store bs (buf st)\<rparr>)
         | (ReadErr e nextSize, s1) \<Rightarrow>
             if e \<noteq> ERROR_INSUFFICIENT_BUFFER then
               (if e \<noteq> errorInvalidParameter then Abort e (st1\<lparr>l_os := s1\<rparr>)
                else Break (st1\<lparr>l_os := s1\<rparr>))
             else if nextSize = 0 then Panicked (st1\<lparr>l_os := s1\<rparr>)
             else
               (let st2 = st1\<lparr>l_os := s1, buf := replicate (unat nextSize) 0, bsize := nextSize,
                              l_trace := l_trace st1 @ [ReadCall flags i nextSize]\<rparr>
                in case ReadEventLog env s1 h flags i nextSize of
                     (ReadOk bs, s2) \<Rightarrow>
                       handle_record env opts logName
                         (st2\<lparr>l_os := s2, buf := store bs (buf st2)\<rparr>)
                   | (ReadErr e2 n2, s2) \<Rightarrow>
                       Break (st2\<lparr>l_os := s2, l_trace := l_trace st2 @ [LogReadEventLog e2]\<rparr>)))"

text \<open>\<^verbatim>\<open>for i := recordNumber; i < oldnum+num; i++\<close>. The result is \<open>Continue\<close> when the
  loop ends by its condition.\<close>

function loop_events ::
  "'s env \<Rightarrow> logOpts \<Rightarrow> string \<Rightarrow> nat \<Rightarrow> uint32 \<Rightarrow> uint32 \<Rightarrow> 's lstate \<Rightarrow> 's lstate ctl" where
  "loop_events env opts logName h i bound st =
     (if i < bound then
        (case read_record env opts logName h i st of
           Continue st' \<Rightarrow> loop_events env opts logName h (i + 1) bound st'
         | Break st' \<Rightarrow> Break st'
         | Abort e st' \<Rightarrow> Abort e st'
         | Panicked st' \<Rightarrow> Panicked st')
      else Continue st)"
  by pat_completeness auto
termination
proof (relation "measure (\<lambda>(env, opts, logName, h, i, bound, st). unat bound - unat i)")
  show "wf (measure (\<lambda>(env :: 's env, opts :: logOpts, logName :: string, h :: nat,
                       i :: uint32, bound :: uint32, st :: 's lstate). unat bound - unat i))"
    by simp
next
  fix env :: "'s env" and opts :: logOpts and logName :: string and h :: nat
    and i bound :: uint32 and st x :: "'s lstate"
  assume lt: "i < bound"
  then have less: "unat i < unat bound"
    by (simp add: word_less_nat_alt)
  moreover have "unat bound < 2 ^ 32"
    using unsigned_less [of bound] by simp
  ultimately have "unat i + 1 < 2 ^ 32"
    by simp
  then have "unat (i + 1) = Suc (unat i)"
    by (simp add: unat_word_ariths)
  with less show "((env, opts, logName, h, i + 1, bound, x), (env, opts, logName, h, i, bound, st))
      \<in> measure (\<lambda>(env, opts, logName, h, i, bound, st). unat bound - unat i)"
    by simp
qed

declare loop_events.simps [simp del]

datatype scan_result = Returned int64 int64 string "error option" | Fatal error | Panic

text \<open>The end of \<^verbatim>\<open>searchLog\<close> after the loop: the state is written unless
  \<^verbatim>\<open>opts.NoState\<close>, a failure of the write is logged, and the counts are returned.\<close>

definition after_loop ::
  "logOpts \<Rightarrow> 's world \<Rightarrow> string \<Rightarrow> uint32 \<Rightarrow> 's lstate \<Rightarrow> scan_result \<times> 's world" where
  "after_loop opts w stateFile recordNumber st =
     (let w1 = w\<lparr>os := l_os st, trace := l_trace st\<rparr>;
          w2 = (if \<not> NoState opts then
                  (case writeLastOffset (fs w1) stateFile (ucast (lastNumber st)) of
                     (fs', Some e) \<Rightarrow>
                       w1\<lparr>fs := fs', trace := trace w1 @ [LogWriteLastOffsetFailed e]\<rparr>
                   | (fs', None) \<Rightarrow> w1\<lparr>fs := fs'\<rparr>)
                else w1)
      in if recordNumber = 0 \<and> \<not> FailFirst opts then (Returned 0 0 [] None, w2)
         else (Returned (warnNum st) (critNum st) (errLines st) None, w2))"

definition finish_scan ::
  "logOpts \<Rightarrow> 's world \<Rightarrow> string \<Rightarrow> uint32 \<Rightarrow> 's lstate ctl \<Rightarrow> scan_result \<times> 's world" where
  "finish_scan opts w stateFile recordNumber r =
     (case r of
        Continue st \<Rightarrow> after_loop opts w stateFile recordNumber st
      | Break st \<Rightarrow> after_loop opts w stateFile recordNumber st
      | Abort e st \<Rightarrow> (Returned 0 0 [] (Some e), w\<lparr>os := l_os st, trace := l_trace st\<rparr>)
      | Panicked st \<Rightarrow> (Panic, w\<lparr>os := l_os st, trace := l_trace st\<rparr>))"

text \<open>The variables at the entry of the loop: a buffer of one byte, no counts.\<close>

definition init_lstate :: "'s \<Rightarrow> event list \<Rightarrow> uint32 \<Rightarrow> 's lstate" where
  "init_lstate s tr lastNumber0 =
     \<lparr>l_os = s, l_trace = tr, buf = [0], bsize = 1, lastNumber = lastNumber0,
      warnNum = 0, critNum = 0, errLines = []\<rparr>"

text \<open>\<^verbatim>\<open>searchLog\<close> from the two bounds queries on, for the handle \<open>h\<close> and the loaded
  \<open>recordNumber\<close>.\<close>

definition scan_open ::
  "'s env \<Rightarrow> logOpts \<Rightarrow> 's world \<Rightarrow> string \<Rightarrow> string \<Rightarrow> uint32 \<Rightarrow> nat
     \<Rightarrow> scan_result \<times> 's world" where
  "scan_open env opts w logName stateFile recordNumber h =
     (let n = GetNumberOfEventLogRecords env (os w) h;
          num = fst n;
          on = GetOldestEventLogRecord env (snd n) h;
          oldnum = fst on;
          w3 = w\<lparr>os := snd on\<rparr>
      in if recordNumber = 0 \<and> \<not> NoState opts \<and> \<not> FailFirst opts then
           (case writeLastOffset (fs w3) stateFile (ucast (oldnum + num - 1)) of
              (fs', err) \<Rightarrow> (Returned 0 0 [] err, w3\<lparr>fs := fs'\<rparr>))
         else if oldnum \<le> recordNumber \<and> recordNumber = oldnum + num - 1 then
           (Returned 0 0 [] None, w3)
         else
           (let lastNumber0 = (if oldnum \<le> recordNumber then recordNumber else 0);
                recordNumber' = (if oldnum \<le> recordNumber then recordNumber + 1 else oldnum)
            in finish_scan opts w3 stateFile recordNumber'
                 (loop_events env opts logName h recordNumber' (oldnum + num)
                    (init_lstate (os w3) (trace w3) lastNumber0))))"

text \<open>\<^verbatim>\<open>stateRe = ^([A-Z]):[/\\]\<close>, replaced by the drive letter and the path
  separator of Windows.\<close>

definition stateRe_replace :: "string \<Rightarrow> string" where
  "stateRe_replace logName =
     (case logName of
        c # d # e # rest \<Rightarrow>
          if 65 \<le> (of_char c :: nat) \<and> (of_char c :: nat) \<le> 90 \<and> d = CHR '':'' \<and>
             (e = CHR ''/'' \<or> e = CHR 0x5C)
          then c # CHR 0x5C # rest else logName
      | _ \<Rightarrow> logName)"

fun Join_space :: "string list \<Rightarrow> string" where
  "Join_space [] = []"
| "Join_space [a] = a"
| "Join_space (a # b # r) = a @ '' '' @ Join_space (b # r)"

definition getStateFile :: "'s env \<Rightarrow> logOpts \<Rightarrow> string \<Rightarrow> string" where
  "getStateFile env opts logName =
     filepath_Join env (StateDir opts)
       (stateRe_replace logName @ ''-'' @ md5_hex env (Join_space (origArgs opts)))"

text \<open>\<^verbatim>\<open>searchLog\<close>. \<open>load_offset\<close> is its first block, the value of
  \<^verbatim>\<open>recordNumber\<close> or the error returned from there. \<^verbatim>\<open>log.Fatal\<close> logs the error and
  ends the process with status 1 (\<open>Fatal\<close>); \<^verbatim>\<open>StringToUTF16Ptr\<close> panics on a name
  with a zero byte.\<close>

definition load_offset :: "logOpts \<Rightarrow> filesys \<Rightarrow> string \<Rightarrow> error + uint32" where
  "load_offset opts fsys stateFile =
     (if \<not> NoState opts then
        (case getLastOffset fsys stateFile of
           (s, Some e) \<Rightarrow> if \<not> IsNotExist e then Inl e else Inr (ucast s)
         | (s, None) \<Rightarrow> Inr (ucast s))
      else Inr 0)"

definition searchLog ::
  "'s env \<Rightarrow> logOpts \<Rightarrow> 's world \<Rightarrow> string \<Rightarrow> scan_result \<times> 's world" where
  "searchLog env opts w logName =
     (let stateFile = getStateFile env opts logName
      in case load_offset opts (fs w) stateFile of
           Inl e \<Rightarrow> (Returned 0 0 [] (Some e), w)
         | Inr recordNumber \<Rightarrow>
             if CHR 0x00 \<in> set logName then (Panic, w)
             else
               (case OpenEventLog env (os w) logName of
                  (Inl e, s1) \<Rightarrow> (Fatal e, w\<lparr>os := s1, trace := trace w @ [LogFatal e]\<rparr>)
                | (Inr h, s1) \<Rightarrow>
                    scan_open env opts (w\<lparr>os := s1\<rparr>) logName stateFile recordNumber h))"

section \<open>The run\<close>

datatype status = OK | WARNING | CRITICAL | UNKNOWN

text \<open>What \<^verbatim>\<open>run\<close> comes to: the checker it returns to \<^verbatim>\<open>main\<close>, the end of the
  process by \<^verbatim>\<open>os.Exit\<close> or \<^verbatim>\<open>log.Fatal\<close> with an exit status, or a panic.\<close>

datatype run_result = Checker status string | Exit nat | Crash

definition parseArgs :: "'s env \<Rightarrow> string list \<Rightarrow> logOpts \<times> error option" where
  "parseArgs env args =
     (let p = flags_ParseArgs env args;
          opts = fst p;
          opts1 = (if StateDir opts = [] then
                     opts\<lparr>StateDir :=
                       filepath_Join env
                         (if Getenv_WORKDIR env = [] then TempDir env else Getenv_WORKDIR env)
                         ''check-windows-eventlog''\<rparr>
                   else opts)
      in (opts1\<lparr>origArgs := args\<rparr>, snd p))"

definition compile_opt ::
  "'s env \<Rightarrow> string \<Rightarrow> error + (string \<Rightarrow> bool) option" where
  "compile_opt env pat =
     (if pat \<noteq> [] then
        (case regexp_Compile env pat of Inl e \<Rightarrow> Inl e | Inr m \<Rightarrow> Inr (Some m))
      else Inr None)"

definition prepare :: "'s env \<Rightarrow> logOpts \<Rightarrow> error + logOpts" where
  "prepare env opts0 =
     (let l = stringList (Log opts0);
          opts1 = opts0\<lparr>logList := (if length l = 0 \<or> hd l = [] then [''Application''] else l),
                        typeList := stringList (Type opts0)\<rparr>
      in case (if opt_EventID opts1 \<noteq> [] then
                 (case idRangeList (opt_EventID opts1) of
                    Inl e \<Rightarrow> Inl e
                  | Inr rl \<Rightarrow> Inr (opts1\<lparr>opt_idRangeList := Some rl\<rparr>))
               else Inr opts1) of
           Inl e \<Rightarrow> Inl e
         | Inr opts2 \<Rightarrow>
      (case compile_opt env (SourcePattern opts2) of
           Inl e \<Rightarrow> Inl e
         | Inr sp \<Rightarrow>
      (case compile_opt env (SourceExclude opts2) of
           Inl e \<Rightarrow> Inl e
         | Inr se \<Rightarrow>
      (case compile_opt env (MessagePattern opts2) of
           Inl e \<Rightarrow> Inl e
         | Inr mp \<Rightarrow>
      (case compile_opt env (MessageExclude opts2) of
           Inl e \<Rightarrow> Inl e
         | Inr me \<Rightarrow>
             Inr (opts2\<lparr>sourcePattern := (case sp of None \<Rightarrow> sourcePattern opts2 | Some m \<Rightarrow> Some m),
                        sourceExclude := (case se of None \<Rightarrow> sourceExclude opts2 | Some m \<Rightarrow> Some m),
                        messagePattern := (case mp of None \<Rightarrow> messagePattern opts2 | Some m \<Rightarrow> Some m),
                        messageExclude := (case me of None \<Rightarrow> messageExclude opts2 | Some m \<Rightarrow> Some m)\<rparr>))))))"

text \<open>The loop of \<^verbatim>\<open>run\<close> over \<^verbatim>\<open>opts.logList\<close> with its three accumulators.\<close>

fun run_logs ::
  "'s env \<Rightarrow> logOpts \<Rightarrow> string list \<Rightarrow> int64 \<times> int64 \<times> string \<Rightarrow> 's world
     \<Rightarrow> (run_result + int64 \<times> int64 \<times> string) \<times> 's world" where
  "run_logs env opts [] acc w = (Inr acc, w)"
| "run_logs env opts (lt # lts) (warnTotal, critTotal, errorOverall) w =
     (case searchLog env opts w lt of
        (Returned wn cn lines (Some e), w') \<Rightarrow> (Inl (Checker UNKNOWN (Error_text env e)), w')
      | (Returned wn cn lines None, w') \<Rightarrow>
          run_logs env opts lts
            (warnTotal + wn, critTotal + cn,
             if ReturnContent opts then errorOverall @ lines else errorOverall) w'
      | (Fatal e, w') \<Rightarrow> (Inl (Exit 1), w')
      | (Panic, w') \<Rightarrow> (Inl Crash, w'))"

text \<open>The end of \<^verbatim>\<open>run\<close>: the message and the status from the totals.\<close>

definition report :: "logOpts \<Rightarrow> int64 \<Rightarrow> int64 \<Rightarrow> string \<Rightarrow> run_result" where
  "report opts warnTotal critTotal errorOverall =
     (let msg0 = Sprintf_d warnTotal @ '' warnings, '' @ Sprintf_d critTotal @ '' criticals.'';
          msg = (if errorOverall \<noteq> [] then msg0 @ [CHR 0x0A] @ errorOverall else msg0);
          checkSt1 = (if WarnOver opts <s warnTotal then WARNING else OK);
          checkSt = (if CritOver opts <s critTotal then CRITICAL else checkSt1)
      in Checker checkSt msg)"

definition run :: "'s env \<Rightarrow> 's world \<Rightarrow> string list \<Rightarrow> run_result \<times> 's world" where
  "run env w args =
     (case parseArgs env args of
        (opts0, Some e) \<Rightarrow> (Exit 1, w)
      | (opts0, None) \<Rightarrow>
          (case prepare env opts0 of
             Inl e \<Rightarrow> (Checker UNKNOWN (Error_text env e), w)
           | Inr opts \<Rightarrow>
               (case run_logs env opts (logList opts) (0, 0, []) w of
                  (Inl r, w') \<Rightarrow> (r, w')
                | (Inr (warnTotal, critTotal, errorOverall), w') \<Rightarrow>
                    (report opts warnTotal critTotal errorOverall, w'))))"

section \<open>Reading results and traces\<close>

fun ctl_state :: "'a ctl \<Rightarrow> 'a" where
  "ctl_state (Continue st) = st"
| "ctl_state (Break st) = st"
| "ctl_state (Abort e st) = st"
| "ctl_state (Panicked st) = st"

fun is_Continue :: "'a ctl \<Rightarrow> bool" where
  "is_Continue (Continue st) = True"
| "is_Continue _ = False"

text \<open>The record numbers visited, and the calls of \<^verbatim>\<open>ReadEventLog\<close>, in a trace.\<close>

fun visited :: "event list \<Rightarrow> uint32 list" where
  "visited [] = []"
| "visited (Visit i # tr) = i # visited tr"
| "visited (ev # tr) = visited tr"

fun read_calls :: "event list \<Rightarrow> (read_flags \<times> uint32 \<times> uint32) list" where
  "read_calls [] = []"
| "read_calls (ReadCall fl i sz # tr) = (fl, i, sz) # read_calls tr"
| "read_calls (ev # tr) = read_calls tr"

text \<open>The record numbers from \<open>i\<close> up to, not including, \<open>bound\<close>.\<close>

definition record_range :: "uint32 \<Rightarrow> uint32 \<Rightarrow> uint32 list" where
  "record_range i bound = map of_nat [unat i..<unat bound]"

text \<open>The scans of the configured logs one after the other, as \<^verbatim>\<open>run\<close> calls them, and
  the counts a scan returns.\<close>

fun scans :: "'s env \<Rightarrow> logOpts \<Rightarrow> string list \<Rightarrow> 's world \<Rightarrow> scan_result list" where
  "scans env opts [] w = []"
| "scans env opts (lt # lts) w =
     fst (searchLog env opts w lt) # scans env opts lts (snd (searchLog env opts w lt))"

fun warn_of :: "scan_result \<Rightarrow> int64" where
  "warn_of (Returned wn cn lines err) = wn"
| "warn_of _ = 0"

fun crit_of :: "scan_result \<Rightarrow> int64" where
  "crit_of (Returned wn cn lines err) = cn"
| "crit_of _ = 0"

section \<open>A test double for the operating system\<close>

text \<open>
  A stateless system for concrete runs. A record is ten bytes: record number, event ID,
  event type, a padding byte, then the source name \<open>A\<close> and an empty computer name in
  UTF-16. The registry has no key, so that message resolution fails. The parameters
  are the parsed options, the answer of \<^verbatim>\<open>OpenEventLog\<close>, the record count, the oldest
  record number, and the answer of \<^verbatim>\<open>ReadEventLog\<close> for a record number and a buffer
  size.
\<close>

definition test_cast :: "byte list \<Rightarrow> EVENTLOGRECORD" where
  "test_cast b =
     \<lparr>RecordNumber = ucast (b ! 0), TimeGenerated = 0, TimeWritten = 0,
      EventID = ucast (b ! 1), EventType = ucast (b ! 2), NumStrings = 0, StringOffset = 0\<rparr>"

definition test_type_name :: "uint16 \<Rightarrow> string" where
  "test_type_name t =
     (if t = 1 then ''Error'' else if t = 2 then ''Warning''
      else if t = 16 then ''Audit Failure'' else ''Information'')"

definition test_env ::
  "logOpts \<Rightarrow> (error + nat) \<Rightarrow> uint32 \<Rightarrow> uint32 \<Rightarrow> (uint32 \<Rightarrow> uint32 \<Rightarrow> read_result)
     \<Rightarrow> unit env" where
  "test_env popts opened num oldnum rd =
     \<lparr>flags_ParseArgs = (\<lambda>args. (popts, None)),
      Getenv_WORKDIR = [],
      TempDir = ''tmp'',
      filepath_Join = (\<lambda>a b. a @ [CHR 0x5C] @ b),
      md5_hex = (\<lambda>s. ''00''),
      regexp_Compile = (\<lambda>p. Inr (\<lambda>s. s = p)),
      Error_text = (\<lambda>e. ''error''),
      OpenEventLog = (\<lambda>s name. (opened, s)),
      GetNumberOfEventLogRecords = (\<lambda>s h. (num, s)),
      GetOldestEventLogRecord = (\<lambda>s h. (oldnum, s)),
      ReadEventLog = (\<lambda>s h fl i sz. (rd i sz, s)),
      sizeof_EVENTLOGRECORD = 4,
      cast_EVENTLOGRECORD = test_cast,
      EventType_String = test_type_name,
      utf16_string = map (\<lambda>u. char_of (unat u)),
      registry_OpenKey = (\<lambda>s k. (Inl (Errno 2), s)),
      GetStringValue = (\<lambda>s k n. (Inl (Errno 2), s)),
      ExpandString = (\<lambda>s v. (Inr v, s)),
      LoadLibraryEx = (\<lambda>s v. (Inl (Errno 2), s)),
      FormatMessage = (\<lambda>s h eid b args. (Inl (Errno 2), s))\<rparr>"

text \<open>A log whose record \<open>i\<close> has event ID 7 and type \<open>ty\<close>; a read with a buffer of
  fewer than ten bytes reports the size it needs.\<close>

definition test_read :: "uint16 \<Rightarrow> uint32 \<Rightarrow> uint32 \<Rightarrow> read_result" where
  "test_read ty i sz =
     (if sz < 10 then ReadErr ERROR_INSUFFICIENT_BUFFER 10
      else ReadOk [ucast i, 7, ucast ty, 0, 65, 0, 0, 0, 0, 0])"

definition test_opts :: logOpts where
  "test_opts =
     \<lparr>Log = ''System'', Type = [], SourcePattern = [], SourceExclude = [],
      MessagePattern = [], MessageExclude = [], opt_EventID = [],
      WarnOver = 0, CritOver = 0, ReturnContent = True, StateDir = ''state'',
      NoState = False, FailFirst = False, Verbose = False,
      logList = [], typeList = [], opt_idRangeList = None,
      sourcePattern = None, sourceExclude = None, messagePattern = None,
      messageExclude = None, origArgs = []\<rparr>"

definition test_state_file :: string where
  "test_state_file = ''state'' @ [CHR 0x5C] @ ''System-00''"

definition test_world :: "file_state \<Rightarrow> error option \<Rightarrow> unit world" where
  "test_world file wfault =
     \<lparr>os = (), fs = \<lparr>files = (\<lambda>f. if f = test_state_file then file else Missing),
                     write_fault = (\<lambda>f. wfault)\<rparr>,
      trace = []\<rparr>"

text \<open>A log that opens, with the records 1 to 3, all of type \<open>Error\<close>.\<close>

definition test_log_env :: "logOpts \<Rightarrow> unit env" where
  "test_log_env popts = test_env popts (Inr 1) 3 1 (test_read 1)"

section \<open>Evaluation of the parser on concrete input\<close>

lemmas parser_eval = idRangeList_def idRange_token_def TrimSpace_def space_encodings_def
  starts_with_def rid1_def rid2_def ParseUint_def is_digit_def digit_val_def

section \<open>Properties of the event-ID filter\<close>

lemma id_loop_foldl:
  "id_loop l e st = foldl (\<lambda>st r. spec_id_step e r st) st l"
proof (induction l arbitrary: st)
  case Nil
  then show ?case by (cases st) simp
next
  case (Cons r rest)
  obtain found exact where st: "st = (found, exact)" by (cases st)
  show ?case
    unfolding st by (simp add: Cons.IH spec_id_step_def)
qed

text \<open>
  Claim C1. When an ID-range list is configured, a record passes the ID stage exactly
  when the evaluation the specification describes, run over the list in order on the
  event ID masked to its lower 16 bits, ends with found = true. With the ranges
  \<open>[{1,10,false},{5,5,true}]\<close> the ID 5 fails and 7 passes; with \<open>[{5,5,true}]\<close> alone
  7 passes and 5 fails.
\<close>

theorem id_filter_evaluation:
  "id_filter (Some l) eid = spec_id_found l (eid AND 0x0000FFFF) \<and>
   id_filter (Some [\<lparr>hi = 10, lo = 1, bang = False\<rparr>, \<lparr>hi = 5, lo = 5, bang = True\<rparr>]) 5 = False \<and>
   id_filter (Some [\<lparr>hi = 10, lo = 1, bang = False\<rparr>, \<lparr>hi = 5, lo = 5, bang = True\<rparr>]) 7 = True \<and>
   id_filter (Some [\<lparr>hi = 5, lo = 5, bang = True\<rparr>]) 7 = True \<and>
   id_filter (Some [\<lparr>hi = 5, lo = 5, bang = True\<rparr>]) 5 = False"
  by (simp add: id_filter_def spec_id_found_def id_loop_foldl spec_id_step_def)

section \<open>Properties of the ID-range parser\<close>

lemma rid1_None: "\<not> is_decimal t \<Longrightarrow> rid1 t = None"
  by (simp add: rid1_def is_decimal_def)

lemma rid2_Some_pair:
  assumes "rid2 t = Some (a, b)"
  shows "is_decimal_pair t"
proof -
  let ?a = "takeWhile is_digit t" and ?r = "dropWhile is_digit t"
  from assms have a: "?a \<noteq> []" and r: "?r \<noteq> []" and h: "hd ?r = CHR ''-''"
    and b: "tl ?r \<noteq> []" "list_all is_digit (tl ?r)"
    by (auto simp: rid2_def Let_def split: if_splits)
  from r h have r_eq: "?r = CHR ''-'' # tl ?r"
    by (cases ?r) auto
  have t_eq: "t = ?a @ CHR ''-'' # tl ?r"
    using takeWhile_dropWhile_id [of is_digit t] r_eq by simp
  let ?k = "length ?a"
  have k: "?k < length t"
    by (subst (2) t_eq) simp
  have "t ! ?k = CHR ''-''"
    by (subst t_eq) (simp add: nth_append)
  moreover have "take ?k t = ?a"
    by (subst t_eq) simp
  moreover have "drop (Suc ?k) t = tl ?r"
    by (subst t_eq) simp
  moreover have "list_all is_digit ?a"
    by (simp add: list_all_iff) (meson set_takeWhileD)
  ultimately have "t ! ?k = CHR ''-'' \<and> is_decimal (take ?k t) \<and> is_decimal (drop (Suc ?k) t)"
    using a b by (simp add: is_decimal_def)
  with k show ?thesis
    unfolding is_decimal_pair_def list_ex_iff by (intro bexI [of _ ?k]) auto
qed

lemma rid2_None: "\<not> is_decimal_pair t \<Longrightarrow> rid2 t = None"
  using rid2_Some_pair [of t] by (cases "rid2 t") auto

lemma malformed_token_fails:
  assumes "\<not> wellformed_token (TrimSpace t0)"
  shows "idRange_token t0 = Inl InvalidIdList"
proof (cases "starts_with (TrimSpace t0) ''!''")
  case True
  then obtain u where u: "TrimSpace t0 = CHR ''!'' # u"
    by (cases "TrimSpace t0") (auto simp: starts_with_def)
  with assms have "\<not> is_decimal u" "\<not> is_decimal_pair u"
    by (auto simp: wellformed_token_def)
  then have "rid1 u = None" "rid2 u = None"
    by (simp_all add: rid1_None rid2_None)
  with True u show ?thesis
    by (simp add: idRange_token_def)
next
  case False
  from assms have "\<not> is_decimal (TrimSpace t0)" "\<not> is_decimal_pair (TrimSpace t0)"
    by (auto simp: wellformed_token_def)
  then have "rid1 (TrimSpace t0) = None" "rid2 (TrimSpace t0) = None"
    by (simp_all add: rid1_None rid2_None)
  with False show ?thesis
    by (simp add: idRange_token_def)
qed

lemma idRangeList_loop_fails:
  "list_ex (\<lambda>t. \<exists>e. idRange_token t = Inl e) ts \<Longrightarrow> \<exists>e. idRangeList_loop ts idrl = Inl e"
proof (induction ts arbitrary: idrl)
  case Nil
  then show ?case by simp
next
  case (Cons t ts)
  show ?case
  proof (cases "idRange_token t")
    case (Inl e)
    then show ?thesis by simp
  next
    case (Inr r)
    with Cons.prems have "list_ex (\<lambda>t. \<exists>e. idRange_token t = Inl e) ts" by simp
    from Cons.IH [OF this] Inr show ?thesis by simp
  qed
qed

text \<open>
  Claim C5. The parser maps \<open>5\<close> to \<open>[{5,5,false}]\<close>, \<open>5-10\<close> and \<open>10-5\<close> to
  \<open>[{5,10,false}]\<close>, \<open>!7\<close> to \<open>[{7,7,true}]\<close>, and \<open>1,5-10,!7\<close> to three entries
  in that order; an input with a token (a comma-separated piece without its surrounding
  white space) that is neither a decimal number, nor two of them joined by a dash, nor
  one of these after an exclamation mark, is refused with an error.
\<close>

theorem idRangeList_parses:
  "idRangeList ''5'' = Inr [\<lparr>hi = 5, lo = 5, bang = False\<rparr>] \<and>
   idRangeList ''5-10'' = Inr [\<lparr>hi = 10, lo = 5, bang = False\<rparr>] \<and>
   idRangeList ''10-5'' = Inr [\<lparr>hi = 10, lo = 5, bang = False\<rparr>] \<and>
   idRangeList ''!7'' = Inr [\<lparr>hi = 7, lo = 7, bang = True\<rparr>] \<and>
   idRangeList ''1,5-10,!7'' =
     Inr [\<lparr>hi = 1, lo = 1, bang = False\<rparr>, \<lparr>hi = 10, lo = 5, bang = False\<rparr>,
          \<lparr>hi = 7, lo = 7, bang = True\<rparr>] \<and>
   (list_ex (\<lambda>t. \<not> wellformed_token t) (tokens s) \<longrightarrow> (\<exists>e. idRangeList s = Inl e))"
proof -
  have "\<exists>e. idRangeList s = Inl e" if "list_ex (\<lambda>t. \<not> wellformed_token t) (tokens s)"
  proof -
    from that have "list_ex (\<lambda>t. \<exists>e. idRange_token t = Inl e) (Split_comma s)"
      by (auto simp: tokens_def list_ex_iff dest: malformed_token_fails)
    then show ?thesis
      unfolding idRangeList_def by (rule idRangeList_loop_fails)
  qed
  moreover have "idRangeList ''5'' = Inr [\<lparr>hi = 5, lo = 5, bang = False\<rparr>]"
    by (simp add: parser_eval)
  moreover have "idRangeList ''5-10'' = Inr [\<lparr>hi = 10, lo = 5, bang = False\<rparr>]"
    by (simp add: parser_eval)
  moreover have "idRangeList ''10-5'' = Inr [\<lparr>hi = 10, lo = 5, bang = False\<rparr>]"
    by (simp add: parser_eval)
  moreover have "idRangeList ''!7'' = Inr [\<lparr>hi = 7, lo = 7, bang = True\<rparr>]"
    by (simp add: parser_eval)
  moreover have "idRangeList ''1,5-10,!7'' =
     Inr [\<lparr>hi = 1, lo = 1, bang = False\<rparr>, \<lparr>hi = 10, lo = 5, bang = False\<rparr>,
          \<lparr>hi = 7, lo = 7, bang = True\<rparr>]"
    by (simp add: parser_eval)
  ultimately show ?thesis by blast
qed

theorem idRangeList_parses_witness:
  "list_ex (\<lambda>t. \<not> wellformed_token t) (tokens ''1,5x,!7'') \<and>
   (\<exists>e. idRangeList ''1,5x,!7'' = Inl e)"
proof -
  have h: "list_ex (\<lambda>t. \<not> wellformed_token t) (tokens ''1,5x,!7'')"
    by (simp add: tokens_def parser_eval wellformed_token_def is_decimal_def is_decimal_pair_def)
  with idRangeList_parses [of "''1,5x,!7''"] show ?thesis by blast
qed

section \<open>Properties of the state file\<close>

lemma digit_char: "d < 10 \<Longrightarrow> is_digit (char_of (48 + d)) \<and> digit_val (char_of (48 + d)) = d"
  by (simp add: is_digit_def digit_val_def)

lemma dec_nat_digits: "dec_nat n \<noteq> [] \<and> list_all is_digit (dec_nat n)"
proof (induction n rule: dec_nat.induct)
  case (1 n)
  show ?case
  proof (cases "n < 10")
    case True
    then show ?thesis
      by (subst dec_nat.simps, subst (2) dec_nat.simps) (simp add: digit_char)
  next
    case False
    have "n mod 10 < 10" by simp
    from digit_char [OF this] 1 False show ?thesis
      by (subst dec_nat.simps, subst (2) dec_nat.simps) simp
  qed
qed

lemma parse_digits_snoc:
  "parse_digits m a (xs @ [c]) =
     (case parse_digits m a xs of
        Inl e \<Rightarrow> Inl e
      | Inr v \<Rightarrow>
          if \<not> is_digit c then Inl ErrSyntax
          else if v * 10 + digit_val c > m then Inl ErrRange
          else Inr (v * 10 + digit_val c))"
  by (induction xs arbitrary: a) auto

lemma parse_digits_dec_nat: "n \<le> m \<Longrightarrow> parse_digits m 0 (dec_nat n) = Inr n"
proof (induction n rule: dec_nat.induct)
  case (1 n)
  show ?case
  proof (cases "n < 10")
    case True
    with 1 digit_char [of n] show ?thesis
      by (subst dec_nat.simps) simp
  next
    case False
    have d: "n mod 10 < 10" by simp
    from 1 False have "parse_digits m 0 (dec_nat (n div 10)) = Inr (n div 10)"
      by simp
    with "1.prems" False digit_char [OF d] show ?thesis
      by (subst dec_nat.simps) (simp add: parse_digits_snoc)
  qed
qed

lemma ParseUint_dec_nat: "n < 2 ^ b \<Longrightarrow> ParseUint (dec_nat n) b = Inr n"
  using dec_nat_digits [of n] by (simp add: ParseUint_def parse_digits_dec_nat)

lemma digit_not_special:
  "is_digit c \<Longrightarrow> c \<noteq> CHR ''-'' \<and> c \<noteq> CHR ''+'' \<and> \<not> in_cutset c"
  by (auto simp: is_digit_def in_cutset_def)

lemma Trim_cutset_id:
  assumes "s \<noteq> []" "\<not> in_cutset (hd s)" "\<not> in_cutset (last s)"
  shows "Trim_cutset s = s"
proof -
  from assms have "dropWhile in_cutset s = s"
    by (cases s) auto
  moreover from assms have "dropWhile in_cutset (rev s) = rev s"
    by (cases "rev s") (auto simp: last_rev [symmetric] hd_rev simp del: last_rev)
  ultimately show ?thesis by (simp add: Trim_cutset_def)
qed

lemma dec_nat_hd_last: "is_digit (hd (dec_nat n)) \<and> is_digit (last (dec_nat n))"
  using dec_nat_digits [of n] by (cases "dec_nat n") (auto simp: list_all_iff)

lemma Trim_cutset_Sprintf_d: "Trim_cutset (Sprintf_d n) = Sprintf_d n"
proof (rule Trim_cutset_id)
  show "Sprintf_d n \<noteq> []"
    using dec_nat_digits by (simp add: Sprintf_d_def)
  show "\<not> in_cutset (hd (Sprintf_d n))"
    using dec_nat_hd_last digit_not_special by (auto simp: Sprintf_d_def in_cutset_def)
  show "\<not> in_cutset (last (Sprintf_d n))"
    using dec_nat_hd_last [of "nat (- sint n)"] dec_nat_hd_last [of "nat (sint n)"]
      dec_nat_digits digit_not_special
    by (auto simp: Sprintf_d_def)
qed

lemma ParseInt64_Sprintf_d: "ParseInt64 (Sprintf_d n) = Inr n"
proof (cases "sint n < 0")
  case True
  have lo: "- (2 ^ 63) \<le> sint n"
    using sint_ge [of n] by simp
  let ?un = "nat (- sint n)"
  from lo have un: "?un \<le> 2 ^ 63"
    by simp
  then have "?un < 2 ^ 64"
    by simp
  then have p: "ParseUint (dec_nat ?un) 64 = Inr ?un"
    by (rule ParseUint_dec_nat)
  have "- (of_nat ?un :: int64) = n"
    using True by (simp add: of_nat_nat)
  with True p un show ?thesis
    by (simp add: ParseInt64_def Sprintf_d_def)
next
  case False
  have hi: "sint n < 2 ^ 63"
    using sint_lt [of n] by simp
  let ?un = "nat (sint n)"
  from hi False have un: "?un < 2 ^ 63"
    by simp
  then have "?un < 2 ^ 64"
    by simp
  then have p: "ParseUint (dec_nat ?un) 64 = Inr ?un"
    by (rule ParseUint_dec_nat)
  have "(of_nat ?un :: int64) = n"
    using False by (simp add: of_nat_nat)
  moreover have "hd (dec_nat ?un) \<noteq> CHR ''-''" "hd (dec_nat ?un) \<noteq> CHR ''+''" "dec_nat ?un \<noteq> []"
    using dec_nat_hd_last [of ?un] digit_not_special dec_nat_digits by auto
  ultimately show ?thesis
    using False p un by (simp add: ParseInt64_def Sprintf_d_def)
qed

lemma getLastOffset_writeLastOffset:
  "write_fault fsys f = None \<Longrightarrow>
     getLastOffset (fst (writeLastOffset fsys f num)) f = (num, None)"
  by (simp add: writeLastOffset_def getLastOffset_def Trim_cutset_Sprintf_d ParseInt64_Sprintf_d)

lemma offset_survives_int64: "ucast (ucast (x :: uint32) :: int64) = x"
  by (simp add: ucast_up_ucast_id is_up)

text \<open>
  Claim C9. Writing an offset with \<^verbatim>\<open>writeLastOffset\<close> and loading the same file with
  \<^verbatim>\<open>getLastOffset\<close> returns that offset; loading a file that does not exist returns
  the offset zero with an error for which \<^verbatim>\<open>os.IsNotExist\<close> holds.
\<close>

theorem state_round_trip:
  "(write_fault fsys f = None \<longrightarrow>
      snd (writeLastOffset fsys f num) = None \<and>
      getLastOffset (fst (writeLastOffset fsys f num)) f = (num, None)) \<and>
   (files fsys f = Missing \<longrightarrow>
      (\<exists>e. getLastOffset fsys f = (0, Some e) \<and> IsNotExist e))"
  by (auto simp: getLastOffset_writeLastOffset)
     (simp_all add: writeLastOffset_def getLastOffset_def)

theorem state_round_trip_witness:
  "write_fault (fs (test_world Missing None)) test_state_file = None \<and>
   files (fs (test_world Missing None)) test_state_file = Missing \<and>
   files (fst (writeLastOffset (fs (test_world Missing None)) test_state_file 12345))
     test_state_file = Content ''12345'' \<and>
   getLastOffset (fst (writeLastOffset (fs (test_world Missing None)) test_state_file 12345))
     test_state_file = (12345, None) \<and>
   (\<exists>e. getLastOffset (fs (test_world Missing None)) test_state_file = (0, Some e) \<and>
        IsNotExist e)"
proof -
  have "Sprintf_d 12345 = ''12345''"
    by (simp add: Sprintf_d_def dec_nat.simps char_of_eq_iff)
  then have "files (fst (writeLastOffset (fs (test_world Missing None)) test_state_file 12345))
     test_state_file = Content ''12345''"
    by (simp add: writeLastOffset_def test_world_def)
  moreover have "write_fault (fs (test_world Missing None)) test_state_file = None"
    "files (fs (test_world Missing None)) test_state_file = Missing"
    by (simp_all add: test_world_def)
  ultimately show ?thesis
    using state_round_trip [of "fs (test_world Missing None)" test_state_file 12345]
    by blast
qed

end
